theory Spec2Isabelle
  imports Main "HOL-Library.AList"
begin

section \<open>Data model\<close>

text \<open>
  The authentication subsystem of the contacts backend: \<^verbatim>\<open>src/services/auth.py\<close>,
  \<^verbatim>\<open>src/api/auth.py\<close> and \<^verbatim>\<open>src/repository/users.py\<close>, over the tables of
  \<^verbatim>\<open>src/database/models.py\<close>.

  Time is counted in whole seconds since the epoch, the resolution at which the JWT
  library writes and compares \<^verbatim>\<open>exp\<close> and \<^verbatim>\<open>iat\<close>. Every function that reads
  the clock takes one reading per read of the source, in the source's order.
\<close>

subsection \<open>Tokens\<close>

text \<open>
  A JSON value as it occurs in the claims of a token, and a claims dictionary. A Python
  dictionary keeps insertion order, and the order is part of the encoded token, so the
  dictionary is an association list: \<open>map_of\<close> is \<^verbatim>\<open>dict.get\<close> and
  \<open>AList.update\<close> is one key of \<^verbatim>\<open>dict.update\<close> (replace in place, else append).
\<close>

datatype jval = JStr string | JInt int

type_synonym claims = "(string \<times> jval) list"

text \<open>
  Token strings, symbolically. \<open>Jws alg key payload\<close> stands for the compact
  serialisation whose header names \<open>alg\<close> and whose signature was made with \<open>key\<close> over
  \<open>payload\<close>; \<open>Malformed s\<close> is any other string \<open>s\<close>. Two tokens are the same string
  exactly when algorithm, key and payload agree: the serialisation and the HMAC are
  deterministic, and signatures are taken to be unforgeable and collision free.
\<close>

datatype token = Malformed string | Jws string string claims

text \<open>Truthiness of a token string: only the empty string is falsy.\<close>

fun truthy :: "token \<Rightarrow> bool" where
  "truthy (Malformed s) = (s \<noteq> [])"
| "truthy (Jws alg k payload) = True"

datatype jwt_error = JWTError | ExpiredSignatureError | JWTClaimsError

text \<open>\<^verbatim>\<open>jwt.encode(claims, key, algorithm=alg)\<close> of python-jose.\<close>

definition jwt_encode :: "claims \<Rightarrow> string \<Rightarrow> string \<Rightarrow> token" where
  "jwt_encode to_encode key alg = Jws alg key to_encode"

text \<open>
  \<^verbatim>\<open>jwt.decode(token, key, algorithms=algs)\<close> of python-jose at clock reading
  \<open>now\<close>: the signature must verify under \<open>key\<close> with an allowed algorithm, an
  \<^verbatim>\<open>exp\<close> claim must be an integer that is not below \<open>now\<close>, and a \<^verbatim>\<open>sub\<close> claim
  must be a string. The library's checks of the other registered claims
  (\<^verbatim>\<open>nbf\<close>, \<^verbatim>\<open>aud\<close>, \<^verbatim>\<open>iss\<close>, \<^verbatim>\<open>jti\<close>, \<^verbatim>\<open>at_hash\<close>), which this program
  never writes, are outside the model.
\<close>

definition validate_exp :: "claims \<Rightarrow> int \<Rightarrow> jwt_error option" where
  "validate_exp payload now =
     (case map_of payload ''exp'' of
        None \<Rightarrow> None
      | Some (JStr s) \<Rightarrow> Some JWTClaimsError
      | Some (JInt e) \<Rightarrow> if e < now then Some ExpiredSignatureError else None)"

definition validate_sub :: "claims \<Rightarrow> jwt_error option" where
  "validate_sub payload =
     (case map_of payload ''sub'' of
        Some (JInt n) \<Rightarrow> Some JWTClaimsError
      | _ \<Rightarrow> None)"

definition jwt_decode :: "token \<Rightarrow> string \<Rightarrow> string list \<Rightarrow> int \<Rightarrow> jwt_error + claims" where
  "jwt_decode tok key algorithms now =
     (case tok of
        Malformed s \<Rightarrow> Inl JWTError
      | Jws alg k payload \<Rightarrow>
          if alg \<notin> set algorithms \<or> k \<noteq> key then Inl JWTError
          else (case validate_exp payload now of
                  Some e \<Rightarrow> Inl e
                | None \<Rightarrow>
                    (case validate_sub payload of
                       Some e \<Rightarrow> Inl e
                     | None \<Rightarrow> Inr payload)))"

subsection \<open>Tables and schemas\<close>

datatype UserRole = USER | ADMIN

record Contact =
  id_Contact :: int
  name_Contact :: string
  surname_Contact :: string
  email_Contact :: string
  phone_number_Contact :: string
  birthday_Contact :: int
  user_id_Contact :: "int option"
  address_id_Contact :: "int option"
  is_active_Contact :: bool
  created_at_Contact :: int
  updated_at_Contact :: int

record Group =
  id_Group :: int
  name_Group :: string
  user_id_Group :: "int option"

text \<open>
  The ORM class \<^verbatim>\<open>User\<close>. An attribute that is \<^verbatim>\<open>None\<close> on an instance built
  without it is an option; \<open>contacts\<close> and \<open>groups\<close> are \<open>None\<close> while the
  relationship has not been loaded.
\<close>

record User =
  id_User :: int
  username :: string
  email :: string
  hashed_password :: "string option"
  refresh_token :: "token option"
  created_at :: "int option"
  avatar :: "string option"
  confirmed :: "bool option"
  role :: "UserRole option"
  contacts :: "Contact list option"
  groups :: "Group list option"

text \<open>The schema \<^verbatim>\<open>UserBase\<close>; a value of it stands for its JSON dump.\<close>

record UserBase =
  id_UserBase :: int
  username_UserBase :: string
  email_UserBase :: string
  avatar_UserBase :: "string option"
  role_UserBase :: "UserRole option"

text \<open>The response schema \<^verbatim>\<open>Token\<close>.\<close>

record Token =
  access_token :: token
  refresh_token_Token :: token
  token_type_Token :: string

subsection \<open>Configuration and messages\<close>

text \<open>
  The settings read from \<^verbatim>\<open>src/conf/config.py\<close>, which is not part of the given
  sources: they are a parameter of every function that reads them.
\<close>

record config =
  JWT_SECRET :: string
  JWT_ALGORITHM :: string
  JWT_EXPIRATION_SECONDS :: int
  JWT_REFRESH_EXPIRATION_SECONDS :: int
  REDIS_EXPIRATION_TIME :: int

definition UNVERIFIED_CREDENTIALS :: string where
  "UNVERIFIED_CREDENTIALS = ''Could not verify credentials''"

definition INVALID_CREDENTIALS :: string where
  "INVALID_CREDENTIALS = ''Wrong email or password''"

definition INVALID_REFRESH_TOKEN :: string where
  "INVALID_REFRESH_TOKEN = ''Invalid or expired refresh token''"

definition USER_NOT_CONFIRMED :: string where
  "USER_NOT_CONFIRMED = ''Email address is not confirmed''"


definition INSUFFICIENT_PERMISSIONS :: string where
  "INSUFFICIENT_PERMISSIONS = ''Insufficient access permissions''"

text \<open>
  What a request can raise: an \<^verbatim>\<open>HTTPException\<close> with status code and detail, or
  SQLAlchemy's \<^verbatim>\<open>MultipleResultsFound\<close> from \<^verbatim>\<open>scalar_one_or_none\<close>.
\<close>

datatype error = HTTPException nat string | MultipleResultsFound

definition credentials_exception :: error where
  "credentials_exception = HTTPException 401 UNVERIFIED_CREDENTIALS"

section \<open>Token issuance (src/services/auth.py)\<close>

definition create_token :: "config \<Rightarrow> claims \<Rightarrow> string \<Rightarrow> int \<Rightarrow> int \<Rightarrow> token" where
  "create_token cfg data token_type expires_delta now =
     (let expire = now + expires_delta;
          to_encode = AList.update ''token_type'' (JStr token_type)
                        (AList.update ''iat'' (JInt now)
                          (AList.update ''exp'' (JInt expire) data))
      in jwt_encode to_encode (JWT_SECRET cfg) (JWT_ALGORITHM cfg))"

text \<open>\<^verbatim>\<open>if expires_delta:\<close> is false for \<^verbatim>\<open>None\<close> and for zero.\<close>

definition create_access_token :: "config \<Rightarrow> claims \<Rightarrow> int option \<Rightarrow> int \<Rightarrow> token" where
  "create_access_token cfg data expires_delta now =
     (case expires_delta of
        Some d \<Rightarrow>
          if d \<noteq> 0 then create_token cfg data ''access'' d now
          else create_token cfg data ''access'' (JWT_EXPIRATION_SECONDS cfg) now
      | None \<Rightarrow> create_token cfg data ''access'' (JWT_EXPIRATION_SECONDS cfg) now)"

definition create_refresh_token :: "config \<Rightarrow> claims \<Rightarrow> int option \<Rightarrow> int \<Rightarrow> token" where
  "create_refresh_token cfg data expires_delta now =
     (case expires_delta of
        Some d \<Rightarrow>
          if d \<noteq> 0 then create_token cfg data ''refresh'' d now
          else create_token cfg data ''refresh'' (JWT_REFRESH_EXPIRATION_SECONDS cfg) now
      | None \<Rightarrow> create_token cfg data ''refresh'' (JWT_REFRESH_EXPIRATION_SECONDS cfg) now)"

text \<open>
  \<^verbatim>\<open>create_email_token\<close> reads the clock twice: \<open>now1\<close> for the expiry, then
  \<open>now2\<close> for \<^verbatim>\<open>iat\<close>. Seven days are 604800 seconds. The dictionary update writes
  \<^verbatim>\<open>iat\<close> before \<^verbatim>\<open>exp\<close>.
\<close>

definition create_email_token :: "config \<Rightarrow> claims \<Rightarrow> int \<Rightarrow> int \<Rightarrow> token" where
  "create_email_token cfg data now1 now2 =
     (let expire = now1 + 7 * 86400;
          to_encode = AList.update ''exp'' (JInt expire)
                        (AList.update ''iat'' (JInt now2) data)
      in jwt_encode to_encode (JWT_SECRET cfg) (JWT_ALGORITHM cfg))"


definition get_current_admin_user :: "User \<Rightarrow> error + User" where
  "get_current_admin_user current_user =
     (if role current_user \<noteq> Some ADMIN
      then Inl (HTTPException 403 INSUFFICIENT_PERMISSIONS)
      else Inr current_user)"

section \<open>Persistent store and cache\<close>

text \<open>
  The database session: the three tables the subsystem reads, and the statements that
  were passed to \<^verbatim>\<open>db.execute\<close>, oldest first (what a test double of the session
  records). A statement is kept with the filters it was built with.
\<close>

datatype stmt =
    select_User string "token option"
  | select_Contact int
  | select_Group int

record session =
  users :: "User list"
  contact_tbl :: "Contact list"
  group_tbl :: "Group list"
  executed :: "stmt list"

definition scalar_one_or_none :: "'a list \<Rightarrow> error + 'a option" where
  "scalar_one_or_none rows =
     (case rows of
        [] \<Rightarrow> Inr None
      | [r] \<Rightarrow> Inr (Some r)
      | r # r' # rest \<Rightarrow> Inl MultipleResultsFound)"

text \<open>
  \<^verbatim>\<open>UserRepository.get_user_by_username\<close>: the filter on the refresh token is added
  only for a truthy token; a row whose column is NULL never equals a token.
\<close>

definition UserRepository_get_user_by_username ::
  "session \<Rightarrow> string \<Rightarrow> token option \<Rightarrow> error + (User option \<times> session)" where
  "UserRepository_get_user_by_username db uname refresh_tok =
     (let by_name = filter (\<lambda>u. username u = uname) (users db);
          flt = (case refresh_tok of
                   None \<Rightarrow> None
                 | Some t \<Rightarrow> if truthy t then Some t else None);
          rows = (case flt of
                    None \<Rightarrow> by_name
                  | Some t \<Rightarrow> filter (\<lambda>u. refresh_token u = Some t) by_name);
          db' = db\<lparr>executed := executed db @ [select_User uname flt]\<rparr>
      in case scalar_one_or_none rows of
           Inl e \<Rightarrow> Inl e
         | Inr found \<Rightarrow> Inr (found, db'))"

text \<open>
  Modelled from the spec: \<^verbatim>\<open>UserService.get_user_by_username\<close> of
  \<^verbatim>\<open>src/services/users.py\<close> is missing from the given sources. Its callers pass a
  user name and, for the refresh flow only, the presented refresh token; the spec lists
  \<^verbatim>\<open>find_by_username\<close> as an operation consumed from the persistent store. It is
  taken to hand both arguments to the repository, the token defaulting to \<^verbatim>\<open>None\<close>.
\<close>

definition UserService_get_user_by_username ::
  "session \<Rightarrow> string \<Rightarrow> token option \<Rightarrow> error + (User option \<times> session)" where
  "UserService_get_user_by_username db uname refresh_tok =
     UserRepository_get_user_by_username db uname refresh_tok"

text \<open>
  \<^verbatim>\<open>user.refresh_token = tok; await db.commit()\<close>: the unit of work flushes an
  update of the row with the object's primary key. The \<^verbatim>\<open>db.refresh(user)\<close> that
  follows reloads the object and leaves the store as it is.
\<close>

definition commit_refresh_token :: "session \<Rightarrow> User \<Rightarrow> token \<Rightarrow> session" where
  "commit_refresh_token db user tok =
     db\<lparr>users := map (\<lambda>row. if id_User row = id_User user
                            then row\<lparr>refresh_token := Some tok\<rparr> else row) (users db)\<rparr>"

text \<open>
  The Redis database: a key holds a value and, once \<^verbatim>\<open>expire\<close> was called, the
  server time at which it ends. \<open>rnow\<close> is the server's clock.
\<close>

type_synonym redis = "string \<Rightarrow> (UserBase \<times> int option) option"

definition redis_get :: "redis \<Rightarrow> int \<Rightarrow> string \<Rightarrow> UserBase option" where
  "redis_get r rnow k =
     (case r k of
        None \<Rightarrow> None
      | Some (v, None) \<Rightarrow> Some v
      | Some (v, Some e) \<Rightarrow> if rnow < e then Some v else None)"

definition redis_set :: "redis \<Rightarrow> string \<Rightarrow> UserBase \<Rightarrow> redis" where
  "redis_set r k v = r(k \<mapsto> (v, None))"

definition redis_expire :: "redis \<Rightarrow> int \<Rightarrow> string \<Rightarrow> int \<Rightarrow> redis" where
  "redis_expire r rnow k seconds =
     (case redis_get r rnow k of
        None \<Rightarrow> r
      | Some v \<Rightarrow> r(k \<mapsto> (v, Some (rnow + seconds))))"

section \<open>Identity resolution (src/services/auth.py)\<close>

text \<open>
  \<^verbatim>\<open>UserBase.model_validate(user).model_dump_json(exclude=["contacts", "groups"])\<close>.
\<close>

definition model_dump_json :: "User \<Rightarrow> UserBase" where
  "model_dump_json user =
     \<lparr>id_UserBase = id_User user, username_UserBase = username user,
      email_UserBase = email user, avatar_UserBase = avatar user,
      role_UserBase = role user\<rparr>"

text \<open>
  \<^verbatim>\<open>User(**user, contacts=..., groups=...)\<close> on a cache hit: the five cached
  attributes and the two relations; every other attribute stays \<^verbatim>\<open>None\<close>.
\<close>

definition User_of_snapshot :: "UserBase \<Rightarrow> Contact list \<Rightarrow> Group list \<Rightarrow> User" where
  "User_of_snapshot snap cs gs =
     \<lparr>id_User = id_UserBase snap, username = username_UserBase snap,
      email = email_UserBase snap, hashed_password = None, refresh_token = None,
      created_at = None, avatar = avatar_UserBase snap, confirmed = None,
      role = role_UserBase snap, contacts = Some cs, groups = Some gs\<rparr>"

text \<open>
  \<^verbatim>\<open>get_current_user\<close>: the token is decoded at \<open>now\<close>, the cache is read and
  written at server time \<open>rnow\<close>. The library lets only a string \<^verbatim>\<open>sub\<close> through,
  so the last case of the match on it is the \<^verbatim>\<open>username is None\<close> branch. A cached
  value is the JSON dump of a \<^verbatim>\<open>UserBase\<close>, which is never empty, so every live
  key is a hit.
\<close>

definition get_current_user ::
  "config \<Rightarrow> redis \<Rightarrow> session \<Rightarrow> token \<Rightarrow> int \<Rightarrow> int \<Rightarrow> error + (User \<times> redis \<times> session)" where
  "get_current_user cfg r db tok now rnow =
     (case jwt_decode tok (JWT_SECRET cfg) [JWT_ALGORITHM cfg] now of
        Inl e \<Rightarrow> Inl credentials_exception
      | Inr payload \<Rightarrow>
          (case map_of payload ''sub'' of
             Some (JStr uname) \<Rightarrow>
               if map_of payload ''token_type'' \<noteq> Some (JStr ''access'')
               then Inl credentials_exception
               else (case redis_get r rnow uname of
                       Some snap \<Rightarrow>
                         (let cs = filter (\<lambda>c. user_id_Contact c = Some (id_UserBase snap))
                                     (contact_tbl db);
                              gs = filter (\<lambda>g. user_id_Group g = Some (id_UserBase snap))
                                     (group_tbl db);
                              db' = db\<lparr>executed := executed db @
                                      [select_Contact (id_UserBase snap),
                                       select_Group (id_UserBase snap)]\<rparr>
                          in Inr (User_of_snapshot snap cs gs, r, db'))
                     | None \<Rightarrow>
                         (case UserService_get_user_by_username db uname None of
                            Inl e \<Rightarrow> Inl e
                          | Inr (None, db') \<Rightarrow> Inl credentials_exception
                          | Inr (Some user, db') \<Rightarrow>
                              Inr (user,
                                   redis_expire (redis_set r uname (model_dump_json user))
                                     rnow uname (REDIS_EXPIRATION_TIME cfg),
                                   db')))
           | _ \<Rightarrow> Inl credentials_exception))"

definition verify_refresh_token ::
  "config \<Rightarrow> session \<Rightarrow> token \<Rightarrow> int \<Rightarrow> error + (User option \<times> session)" where
  "verify_refresh_token cfg db refresh_tok now =
     (case jwt_decode refresh_tok (JWT_SECRET cfg) [JWT_ALGORITHM cfg] now of
        Inl e \<Rightarrow> Inl credentials_exception
      | Inr payload \<Rightarrow>
          (case map_of payload ''sub'' of
             Some (JStr uname) \<Rightarrow>
               if map_of payload ''token_type'' \<noteq> Some (JStr ''refresh'')
               then Inl credentials_exception
               else UserService_get_user_by_username db uname (Some refresh_tok)
           | _ \<Rightarrow> Inl credentials_exception))"

section \<open>Session management (src/api/auth.py)\<close>

text \<open>
  \<^verbatim>\<open>login_user\<close>. \<open>verify_password\<close> is \<^verbatim>\<open>Hash().verify_password\<close>, the bcrypt
  check of passlib, taken as a parameter. The access token is minted at \<open>now1\<close>, the
  refresh token at \<open>now2\<close>.
\<close>

definition login_user ::
  "config \<Rightarrow> (string \<Rightarrow> string option \<Rightarrow> bool) \<Rightarrow> session \<Rightarrow> string \<Rightarrow> string \<Rightarrow> int \<Rightarrow> int
     \<Rightarrow> error + (Token \<times> session)" where
  "login_user cfg verify_password db form_username form_password now1 now2 =
     (case UserService_get_user_by_username db form_username None of
        Inl e \<Rightarrow> Inl e
      | Inr (None, db') \<Rightarrow> Inl (HTTPException 401 INVALID_CREDENTIALS)
      | Inr (Some user, db') \<Rightarrow>
          if \<not> verify_password form_password (hashed_password user)
          then Inl (HTTPException 401 INVALID_CREDENTIALS)
          else if confirmed user \<noteq> Some True
          then Inl (HTTPException 401 USER_NOT_CONFIRMED)
          else (let access = create_access_token cfg [(''sub'', JStr (username user))] None now1;
                    refresh = create_refresh_token cfg [(''sub'', JStr (username user))] None now2
                in Inr (\<lparr>access_token = access, refresh_token_Token = refresh,
                          token_type_Token = ''bearer''\<rparr>,
                        commit_refresh_token db' user refresh)))"

text \<open>
  \<^verbatim>\<open>new_token\<close>: the presented token is decoded at \<open>now\<close>, the new access token is
  minted at \<open>now1\<close> and the new refresh token at \<open>now2\<close>.
\<close>

definition new_token ::
  "config \<Rightarrow> session \<Rightarrow> token \<Rightarrow> int \<Rightarrow> int \<Rightarrow> int \<Rightarrow> error + (Token \<times> session)" where
  "new_token cfg db request_refresh_token now now1 now2 =
     (case verify_refresh_token cfg db request_refresh_token now of
        Inl e \<Rightarrow> Inl e
      | Inr (None, db') \<Rightarrow> Inl (HTTPException 401 INVALID_REFRESH_TOKEN)
      | Inr (Some user, db') \<Rightarrow>
          (let new_access_token =
                 create_access_token cfg [(''sub'', JStr (username user))] None now1;
               new_refresh_token =
                 create_refresh_token cfg [(''sub'', JStr (username user))] None now2
           in Inr (\<lparr>access_token = new_access_token, refresh_token_Token = new_refresh_token,
                     token_type_Token = ''bearer''\<rparr>,
                   commit_refresh_token db' user new_refresh_token)))"

section \<open>Example data\<close>

text \<open>A configuration, three user rows and a toy password check, used to run the model.\<close>

definition cfg0 :: config where
  "cfg0 = \<lparr>JWT_SECRET = ''secret'', JWT_ALGORITHM = ''HS256'',
           JWT_EXPIRATION_SECONDS = 3600, JWT_REFRESH_EXPIRATION_SECONDS = 604800,
           REDIS_EXPIRATION_TIME = 600\<rparr>"

definition alice :: User where
  "alice = \<lparr>id_User = 1, username = ''alice'', email = ''alice@example.com'',
            hashed_password = Some ''$2b$alice'', refresh_token = None,
            created_at = Some 900, avatar = None, confirmed = Some True,
            role = Some USER, contacts = None, groups = None\<rparr>"

definition root :: User where
  "root = \<lparr>id_User = 2, username = ''root'', email = ''root@example.com'',
           hashed_password = Some ''$2b$root'', refresh_token = None,
           created_at = Some 900, avatar = None, confirmed = Some True,
           role = Some ADMIN, contacts = None, groups = None\<rparr>"

definition bob :: User where
  "bob = \<lparr>id_User = 3, username = ''bob'', email = ''bob@example.com'',
          hashed_password = Some ''$2b$builder'', refresh_token = None,
          created_at = Some 950, avatar = None, confirmed = Some False,
          role = Some USER, contacts = None, groups = None\<rparr>"

definition carol :: Contact where
  "carol = \<lparr>id_Contact = 10, name_Contact = ''Carol'', surname_Contact = ''Jones'',
         email_Contact = ''carol@example.com'', phone_number_Contact = ''555-0100'',
         birthday_Contact = 0, user_id_Contact = Some 1, address_id_Contact = None,
         is_active_Contact = True, created_at_Contact = 900, updated_at_Contact = 900\<rparr>"

definition friends :: Group where
  "friends = \<lparr>id_Group = 20, name_Group = ''friends'', user_id_Group = Some 1\<rparr>"

definition db_init :: session where
  "db_init = \<lparr>users = [alice, root, bob], contact_tbl = [carol], group_tbl = [friends], executed = []\<rparr>"

definition vp0 :: "string \<Rightarrow> string option \<Rightarrow> bool" where
  "vp0 plain_password hashed = (hashed = Some (''$2b$'' @ plain_password))"

text \<open>The tokens minted for alice at second 1000, and the store after her login then.\<close>

definition access_1000 :: token where
  "access_1000 = Jws ''HS256'' ''secret''
           [(''sub'', JStr ''alice''), (''exp'', JInt 4600), (''iat'', JInt 1000),
            (''token_type'', JStr ''access'')]"

definition refresh_1000 :: token where
  "refresh_1000 = Jws ''HS256'' ''secret''
           [(''sub'', JStr ''alice''), (''exp'', JInt 605800), (''iat'', JInt 1000),
            (''token_type'', JStr ''refresh'')]"

definition pair_1000 :: Token where
  "pair_1000 = \<lparr>access_token = access_1000, refresh_token_Token = refresh_1000, token_type_Token = ''bearer''\<rparr>"

definition db_1000 :: session where
  "db_1000 = \<lparr>users = [alice\<lparr>refresh_token := Some refresh_1000\<rparr>, root, bob], contact_tbl = [carol],
           group_tbl = [friends], executed = [select_User ''alice'' None]\<rparr>"

text \<open>The refresh token minted for alice at second 1005, and the store after that refresh.\<close>

definition refresh_1005 :: token where
  "refresh_1005 = Jws ''HS256'' ''secret''
           [(''sub'', JStr ''alice''), (''exp'', JInt 605805), (''iat'', JInt 1005),
            (''token_type'', JStr ''refresh'')]"

definition access_1005 :: token where
  "access_1005 = Jws ''HS256'' ''secret''
           [(''sub'', JStr ''alice''), (''exp'', JInt 4605), (''iat'', JInt 1005),
            (''token_type'', JStr ''access'')]"

definition pair_1005 :: Token where
  "pair_1005 = \<lparr>access_token = access_1005, refresh_token_Token = refresh_1005, token_type_Token = ''bearer''\<rparr>"

definition db_1005 :: session where
  "db_1005 = \<lparr>users = [alice\<lparr>refresh_token := Some refresh_1005\<rparr>, root, bob], contact_tbl = [carol],
           group_tbl = [friends],
           executed = [select_User ''alice'' None, select_User ''alice'' (Some refresh_1000)]\<rparr>"

text \<open>The cache after alice was resolved on a miss at server time 1000.\<close>

definition cache_1000 :: redis where
  "cache_1000 = redis_expire (redis_set Map.empty ''alice'' (model_dump_json alice)) 1000 ''alice'' 600"

text \<open>An email-confirmation token for alice's address, issued at second 1000.\<close>

definition email_1000 :: token where
  "email_1000 = Jws ''HS256'' ''secret''
           [(''sub'', JStr ''alice@example.com''), (''iat'', JInt 1000), (''exp'', JInt 605800)]"

section \<open>Auxiliary lemmas\<close>

lemmas token_defs = create_access_token_def create_refresh_token_def create_token_def
  create_email_token_def jwt_encode_def jwt_decode_def validate_exp_def validate_sub_def

lemmas store_defs = Let_def UserService_get_user_by_username_def
  UserRepository_get_user_by_username_def scalar_one_or_none_def commit_refresh_token_def

lemmas redis_defs = redis_get_def redis_set_def redis_expire_def model_dump_json_def
  User_of_snapshot_def

lemmas example_defs = cfg0_def alice_def root_def bob_def carol_def friends_def db_init_def
  db_1000_def db_1005_def vp0_def access_1000_def refresh_1000_def pair_1000_def
  access_1005_def refresh_1005_def pair_1005_def cache_1000_def email_1000_def

subsection \<open>Decoding\<close>

lemma jwt_decode_Inr_iff:
  "jwt_decode tok key algs now = Inr payload \<longleftrightarrow>
     (\<exists>alg. tok = Jws alg key payload \<and> alg \<in> set algs \<and>
            validate_exp payload now = None \<and> validate_sub payload = None)"
  by (cases tok) (auto simp: jwt_decode_def split: option.splits)


lemma validate_sub_update:
  "k \<noteq> ''sub'' \<Longrightarrow> validate_sub (AList.update k v al) = validate_sub al"
  by (simp add: validate_sub_def update_conv')

lemma validate_exp_update_exp:
  "validate_exp (AList.update ''exp'' (JInt e) al) now =
     (if e < now then Some ExpiredSignatureError else None)"
  by (simp add: validate_exp_def update_conv')

lemma validate_exp_update_other:
  "k \<noteq> ''exp'' \<Longrightarrow> validate_exp (AList.update k v al) now = validate_exp al now"
  by (simp add: validate_exp_def update_conv')


lemma jwt_decode_create_email_token:
  "jwt_decode (create_email_token cfg data now1 now2) (JWT_SECRET cfg) [JWT_ALGORITHM cfg] t =
     (if now1 + 604800 < t then Inl ExpiredSignatureError
      else case validate_sub data of
             Some e \<Rightarrow> Inl e
           | None \<Rightarrow> Inr (AList.update ''exp'' (JInt (now1 + 604800))
                          (AList.update ''iat'' (JInt now2) data)))"
  by (simp add: jwt_decode_def create_email_token_def jwt_encode_def Let_def
        validate_sub_update validate_exp_update_exp validate_exp_update_other
      split: option.splits)

subsection \<open>Looking a user up\<close>

lemma filter_unique_key:
  "distinct (map f xs) \<Longrightarrow> x \<in> set xs \<Longrightarrow> filter (\<lambda>y. f y = f x) xs = [x]"
proof (induction xs)
  case Nil
  then show ?case by simp
next
  case (Cons a xs)
  show ?case
  proof (cases "a = x")
    case True
    with Cons.prems have "\<forall>y\<in>set xs. f y \<noteq> f x" by (auto simp: image_def)
    then have "filter (\<lambda>y. f y = f x) xs = []" by (simp add: filter_empty_conv)
    with True show ?thesis by simp
  next
    case False
    with Cons.prems have "x \<in> set xs" and "f a \<noteq> f x" by (auto simp: image_def)
    with Cons show ?thesis by simp
  qed
qed

lemma scalar_one_or_none_Some:
  "scalar_one_or_none rows = Inr (Some u) \<longleftrightarrow> rows = [u]"
  by (auto simp: scalar_one_or_none_def split: list.splits)

lemma scalar_one_or_none_Nil [simp]: "scalar_one_or_none [] = Inr None"
  by (simp add: scalar_one_or_none_def)

lemma get_user_by_username_found:
  assumes "distinct (map username (users db))" and "u \<in> set (users db)"
  shows "UserService_get_user_by_username db (username u) None =
           Inr (Some u, db\<lparr>executed := executed db @ [select_User (username u) None]\<rparr>)"
  using filter_unique_key [OF assms]
  by (simp add: UserService_get_user_by_username_def UserRepository_get_user_by_username_def
        scalar_one_or_none_def)

lemma get_user_by_username_absent:
  assumes "uname \<notin> username ` set (users db)"
  shows "UserService_get_user_by_username db uname None =
           Inr (None, db\<lparr>executed := executed db @ [select_User uname None]\<rparr>)"
proof -
  have "filter (\<lambda>u. username u = uname) (users db) = []"
    using assms by (auto simp: filter_empty_conv)
  then show ?thesis
    by (simp add: UserService_get_user_by_username_def UserRepository_get_user_by_username_def
          scalar_one_or_none_def)
qed

lemma get_user_by_username_None_Some:
  assumes "UserService_get_user_by_username db uname None = Inr (Some u, db1)"
  shows "filter (\<lambda>x. username x = uname) (users db) = [u] \<and> users db1 = users db"
  using assms
  by (auto simp: UserService_get_user_by_username_def UserRepository_get_user_by_username_def
        Let_def scalar_one_or_none_Some split: sum.splits)

lemma verify_refresh_token_Some:
  assumes "verify_refresh_token cfg db rt now = Inr (Some u, db1)"
  shows "\<exists>payload uname.
           jwt_decode rt (JWT_SECRET cfg) [JWT_ALGORITHM cfg] now = Inr payload \<and>
           map_of payload ''sub'' = Some (JStr uname) \<and>
           map_of payload ''token_type'' = Some (JStr ''refresh'') \<and>
           filter (\<lambda>x. refresh_token x = Some rt)
             (filter (\<lambda>x. username x = uname) (users db)) = [u] \<and>
           db1 = db\<lparr>executed := executed db @ [select_User uname (Some rt)]\<rparr>"
proof -
  from assms obtain payload where
    d: "jwt_decode rt (JWT_SECRET cfg) [JWT_ALGORITHM cfg] now = Inr payload"
    by (auto simp: verify_refresh_token_def split: sum.splits)
  then have tr: "truthy rt" by (auto simp: jwt_decode_Inr_iff)
  from assms d obtain uname where s: "map_of payload ''sub'' = Some (JStr uname)"
    by (auto simp: verify_refresh_token_def split: option.splits jval.splits)
  from assms d s have k: "map_of payload ''token_type'' = Some (JStr ''refresh'')"
    by (auto simp: verify_refresh_token_def split: if_splits)
  from assms d s k tr have
    "filter (\<lambda>x. refresh_token x = Some rt)
       (filter (\<lambda>x. username x = uname) (users db)) = [u] \<and>
     db1 = db\<lparr>executed := executed db @ [select_User uname (Some rt)]\<rparr>"
    by (auto simp: verify_refresh_token_def UserService_get_user_by_username_def
          UserRepository_get_user_by_username_def Let_def scalar_one_or_none_Some
          split: sum.splits)
  with d s k show ?thesis by blast
qed

subsection \<open>Writing the refresh token\<close>

lemma users_commit_refresh_token:
  "users (commit_refresh_token db u tok) =
     map (\<lambda>row. if id_User row = id_User u then row\<lparr>refresh_token := Some tok\<rparr> else row)
       (users db)"
  by (simp add: commit_refresh_token_def)

lemma usernames_commit_refresh_token:
  "map username (users (commit_refresh_token db u tok)) = map username (users db)"
  by (simp add: commit_refresh_token_def comp_def if_distrib cong: if_cong)

lemma new_token_Inr:
  assumes "new_token cfg db rt now now1 now2 = Inr (t, db')"
  shows "\<exists>u db1. verify_refresh_token cfg db rt now = Inr (Some u, db1) \<and>
           refresh_token_Token t =
             create_token cfg [(''sub'', JStr (username u))] ''refresh''
               (JWT_REFRESH_EXPIRATION_SECONDS cfg) now2 \<and>
           db' = commit_refresh_token db1 u (refresh_token_Token t)"
  using assms
  by (auto simp: new_token_def Let_def create_refresh_token_def
        split: sum.splits option.splits prod.splits)

lemma login_user_Inr:
  assumes "login_user cfg vp db uname pw now1 now2 = Inr (t, db')"
  shows "\<exists>u db1. UserService_get_user_by_username db uname None = Inr (Some u, db1) \<and>
           refresh_token_Token t =
             create_token cfg [(''sub'', JStr (username u))] ''refresh''
               (JWT_REFRESH_EXPIRATION_SECONDS cfg) now2 \<and>
           db' = commit_refresh_token db1 u (refresh_token_Token t)"
  using assms
  by (auto simp: login_user_def Let_def create_refresh_token_def
        split: sum.splits option.splits prod.splits if_splits)


lemma rows_after_commit:
  assumes u: "u \<in> set (users db)" and d: "distinct (map username (users db))"
  shows "username u \<in> username ` set (users (commit_refresh_token db u tok)) \<and>
         (\<forall>row \<in> set (users (commit_refresh_token db u tok)).
            username row = username u \<longrightarrow> refresh_token row = Some tok)"
proof -
  have only: "x = u" if "x \<in> set (users db)" "username x = username u" for x
  proof -
    from that have "x \<in> set (filter (\<lambda>y. username y = username u) (users db))" by simp
    with filter_unique_key [OF d u] show ?thesis by simp
  qed
  have "username u \<in> set (map username (users (commit_refresh_token db u tok)))"
    unfolding usernames_commit_refresh_token using u by simp
  moreover have "\<forall>row \<in> set (users (commit_refresh_token db u tok)).
            username row = username u \<longrightarrow> refresh_token row = Some tok"
    using only by (auto simp: users_commit_refresh_token)
  ultimately show ?thesis by simp
qed

subsection \<open>The cache\<close>



subsection \<open>The example run\<close>

lemma distinct_db_init: "distinct (map username (users db_init))"
  by (simp add: example_defs)

lemma distinct_db_1000: "distinct (map username (users db_1000))"
  by (simp add: example_defs)

lemma login_alice:
  "login_user cfg0 vp0 db_init ''alice'' ''alice'' 1000 1000 = Inr (pair_1000, db_1000)"
  by (simp add: login_user_def token_defs store_defs example_defs)

lemma refresh_alice:
  "new_token cfg0 db_1000 refresh_1000 1005 1005 1005 = Inr (pair_1005, db_1005)"
  by (simp add: new_token_def verify_refresh_token_def token_defs store_defs example_defs)


section \<open>Properties\<close>

subsection \<open>Supersession of refresh tokens\<close>




subsection \<open>Resolving a bearer token\<close>



subsection \<open>Login\<close>

text \<open>
  Claim C3. Over a users table with unique user names: for a row whose stored hash
  verifies against the presented password, \<^verbatim>\<open>login_user\<close> succeeds exactly when the
  row is confirmed, and then returns the access and the refresh token minted for that
  user name; unconfirmed, it raises the 401 with \<^verbatim>\<open>USER_NOT_CONFIRMED\<close>. For an
  unknown user name, and for a row whose hash does not verify, it raises the 401 with
  \<^verbatim>\<open>INVALID_CREDENTIALS\<close>.
\<close>

theorem login_user_outcome:
  assumes "distinct (map username (users db))"
  shows "(\<forall>u \<in> set (users db).
            username u = uname \<and> verify_password pw (hashed_password u) \<longrightarrow>
            ((\<exists>res. login_user cfg verify_password db uname pw now1 now2 = Inr res) \<longleftrightarrow>
               confirmed u = Some True) \<and>
            (confirmed u \<noteq> Some True \<longrightarrow>
               login_user cfg verify_password db uname pw now1 now2 =
                 Inl (HTTPException 401 USER_NOT_CONFIRMED)) \<and>
            (confirmed u = Some True \<longrightarrow>
               (\<exists>db'. login_user cfg verify_password db uname pw now1 now2 =
                 Inr (\<lparr>access_token =
                         create_token cfg [(''sub'', JStr uname)] ''access''
                           (JWT_EXPIRATION_SECONDS cfg) now1,
                       refresh_token_Token =
                         create_token cfg [(''sub'', JStr uname)] ''refresh''
                           (JWT_REFRESH_EXPIRATION_SECONDS cfg) now2,
                       token_type_Token = ''bearer''\<rparr>, db')))) \<and>
         (uname \<notin> username ` set (users db) \<longrightarrow>
            login_user cfg verify_password db uname pw now1 now2 =
              Inl (HTTPException 401 INVALID_CREDENTIALS)) \<and>
         (\<forall>u \<in> set (users db).
            username u = uname \<and> \<not> verify_password pw (hashed_password u) \<longrightarrow>
            login_user cfg verify_password db uname pw now1 now2 =
              Inl (HTTPException 401 INVALID_CREDENTIALS))"
proof (intro conjI ballI impI)
  fix u assume "u \<in> set (users db)"
    and h: "username u = uname \<and> verify_password pw (hashed_password u)"
  then have g: "UserService_get_user_by_username db uname None =
      Inr (Some u, db\<lparr>executed := executed db @ [select_User uname None]\<rparr>)"
    using get_user_by_username_found [OF assms, of u] by auto
  show "(\<exists>res. login_user cfg verify_password db uname pw now1 now2 = Inr res) \<longleftrightarrow>
               confirmed u = Some True"
    using g h by (simp add: login_user_def Let_def)
  show "login_user cfg verify_password db uname pw now1 now2 =
                 Inl (HTTPException 401 USER_NOT_CONFIRMED)" if "confirmed u \<noteq> Some True"
    using g h that by (simp add: login_user_def)
  show "\<exists>db'. login_user cfg verify_password db uname pw now1 now2 =
                 Inr (\<lparr>access_token =
                         create_token cfg [(''sub'', JStr uname)] ''access''
                           (JWT_EXPIRATION_SECONDS cfg) now1,
                       refresh_token_Token =
                         create_token cfg [(''sub'', JStr uname)] ''refresh''
                           (JWT_REFRESH_EXPIRATION_SECONDS cfg) now2,
                       token_type_Token = ''bearer''\<rparr>, db')" if "confirmed u = Some True"
    using g h that
    by (simp add: login_user_def Let_def create_access_token_def create_refresh_token_def)
next
  assume "uname \<notin> username ` set (users db)"
  then show "login_user cfg verify_password db uname pw now1 now2 =
              Inl (HTTPException 401 INVALID_CREDENTIALS)"
    by (simp add: login_user_def get_user_by_username_absent)
next
  fix u assume "u \<in> set (users db)"
    and h: "username u = uname \<and> \<not> verify_password pw (hashed_password u)"
  then have g: "UserService_get_user_by_username db uname None =
      Inr (Some u, db\<lparr>executed := executed db @ [select_User uname None]\<rparr>)"
    using get_user_by_username_found [OF assms, of u] by auto
  show "login_user cfg verify_password db uname pw now1 now2 =
              Inl (HTTPException 401 INVALID_CREDENTIALS)"
    using g h by (simp add: login_user_def)
qed

text \<open>
  Witness for C3: alice (confirmed) logs in; bob (not confirmed) gives the right
  password and is refused as unconfirmed; carol is unknown; alice with a wrong password
  is refused.
\<close>

theorem login_user_outcome_witness:
  "distinct (map username (users db_init)) \<and>
   alice \<in> set (users db_init) \<and> vp0 ''alice'' (hashed_password alice) \<and>
   confirmed alice = Some True \<and>
   \<not> isl (login_user cfg0 vp0 db_init ''alice'' ''alice'' 1000 1000) \<and>
   bob \<in> set (users db_init) \<and> vp0 ''builder'' (hashed_password bob) \<and>
   confirmed bob \<noteq> Some True \<and>
   login_user cfg0 vp0 db_init ''bob'' ''builder'' 1000 1000 =
     Inl (HTTPException 401 USER_NOT_CONFIRMED) \<and>
   ''carol'' \<notin> username ` set (users db_init) \<and>
   login_user cfg0 vp0 db_init ''carol'' ''builder'' 1000 1000 =
     Inl (HTTPException 401 INVALID_CREDENTIALS) \<and>
   \<not> vp0 ''wrong'' (hashed_password alice) \<and>
   login_user cfg0 vp0 db_init ''alice'' ''wrong'' 1000 1000 =
     Inl (HTTPException 401 INVALID_CREDENTIALS)"
proof -
  have a: "alice \<in> set (users db_init)" "username alice = ''alice''"
    "vp0 ''alice'' (hashed_password alice)" "confirmed alice = Some True"
    "\<not> vp0 ''wrong'' (hashed_password alice)"
    by (simp_all add: example_defs)
  have b: "bob \<in> set (users db_init)" "username bob = ''bob''"
    "vp0 ''builder'' (hashed_password bob)" "confirmed bob \<noteq> Some True"
    by (simp_all add: example_defs)
  have c: "''carol'' \<notin> username ` set (users db_init)"
    by (simp add: example_defs)
  from login_user_outcome [OF distinct_db_init, where uname = "''alice''" and pw = "''alice''"
      and verify_password = vp0 and cfg = cfg0 and ?now1.0 = 1000 and ?now2.0 = 1000] a
  have "\<exists>res. login_user cfg0 vp0 db_init ''alice'' ''alice'' 1000 1000 = Inr res"
    by blast
  then have r1: "\<not> isl (login_user cfg0 vp0 db_init ''alice'' ''alice'' 1000 1000)"
    by auto
  from login_user_outcome [OF distinct_db_init, where uname = "''bob''" and pw = "''builder''"
      and verify_password = vp0 and cfg = cfg0 and ?now1.0 = 1000 and ?now2.0 = 1000] b
  have r2: "login_user cfg0 vp0 db_init ''bob'' ''builder'' 1000 1000 =
     Inl (HTTPException 401 USER_NOT_CONFIRMED)"
    by blast
  from login_user_outcome [OF distinct_db_init, where uname = "''carol''" and pw = "''builder''"
      and verify_password = vp0 and cfg = cfg0 and ?now1.0 = 1000 and ?now2.0 = 1000] c
  have r3: "login_user cfg0 vp0 db_init ''carol'' ''builder'' 1000 1000 =
     Inl (HTTPException 401 INVALID_CREDENTIALS)"
    by blast
  from login_user_outcome [OF distinct_db_init, where uname = "''alice''" and pw = "''wrong''"
      and verify_password = vp0 and cfg = cfg0 and ?now1.0 = 1000 and ?now2.0 = 1000] a
  have r4: "login_user cfg0 vp0 db_init ''alice'' ''wrong'' 1000 1000 =
     Inl (HTTPException 401 INVALID_CREDENTIALS)"
    by blast
  from distinct_db_init a b c r1 r2 r3 r4 show ?thesis by simp
qed

subsection \<open>The kind of a token at each place of decoding\<close>




subsection \<open>The cache\<close>




subsection \<open>The stored refresh token\<close>

text \<open>
  Claim C6. Over a users table with unique user names: a successful \<^verbatim>\<open>login_user\<close>
  and a successful \<^verbatim>\<open>new_token\<close> return the refresh token just minted for the user,
  leave the user names of the table as they were, and leave every row of that user name
  (there is one) holding exactly the returned token; and in one state of the table at
  most one token string passes \<^verbatim>\<open>verify_refresh_token\<close> for a user name.
\<close>

theorem refresh_token_overwritten:
  assumes "distinct (map username (users db))"
  shows "(\<forall>t db'. login_user cfg vp db uname pw now1 now2 = Inr (t, db') \<longrightarrow>
            refresh_token_Token t =
              create_token cfg [(''sub'', JStr uname)] ''refresh''
                (JWT_REFRESH_EXPIRATION_SECONDS cfg) now2 \<and>
            map username (users db') = map username (users db) \<and>
            uname \<in> username ` set (users db') \<and>
            (\<forall>row \<in> set (users db').
               username row = uname \<longrightarrow> refresh_token row = Some (refresh_token_Token t))) \<and>
         (\<forall>t db'. new_token cfg db rt now now1 now2 = Inr (t, db') \<longrightarrow>
            (\<exists>u db1. verify_refresh_token cfg db rt now = Inr (Some u, db1) \<and>
               refresh_token u = Some rt \<and>
               refresh_token_Token t =
                 create_token cfg [(''sub'', JStr (username u))] ''refresh''
                   (JWT_REFRESH_EXPIRATION_SECONDS cfg) now2 \<and>
               map username (users db') = map username (users db) \<and>
               username u \<in> username ` set (users db') \<and>
               (\<forall>row \<in> set (users db').
                  username row = username u \<longrightarrow>
                  refresh_token row = Some (refresh_token_Token t)))) \<and>
         (\<forall>ta tb ua ub dba dbb na nb.
            verify_refresh_token cfg db ta na = Inr (Some ua, dba) \<and>
            verify_refresh_token cfg db tb nb = Inr (Some ub, dbb) \<and>
            username ua = username ub \<longrightarrow> ta = tb)"
proof (intro conjI allI impI ballI)
  fix t db' assume a: "login_user cfg vp db uname pw now1 now2 = Inr (t, db')"
  from login_user_Inr [OF a] obtain u db1 where
    g: "UserService_get_user_by_username db uname None = Inr (Some u, db1)" and
    m: "refresh_token_Token t = create_token cfg [(''sub'', JStr (username u))] ''refresh''
               (JWT_REFRESH_EXPIRATION_SECONDS cfg) now2" and
    c: "db' = commit_refresh_token db1 u (refresh_token_Token t)" by blast
  from get_user_by_username_None_Some [OF g] have
    f: "filter (\<lambda>x. username x = uname) (users db) = [u]" and e: "users db1 = users db"
    by auto
  from f have "u \<in> set (filter (\<lambda>x. username x = uname) (users db))" by simp
  then have u: "u \<in> set (users db1)" and n: "username u = uname" using e by auto
  from assms e have d1: "distinct (map username (users db1))" by simp
  show "refresh_token_Token t = create_token cfg [(''sub'', JStr uname)] ''refresh''
                (JWT_REFRESH_EXPIRATION_SECONDS cfg) now2" using m n by simp
  show "map username (users db') = map username (users db)"
    unfolding c usernames_commit_refresh_token using e by simp
  show "uname \<in> username ` set (users db')"
    using rows_after_commit [OF u d1, of "refresh_token_Token t"] c n by simp
  show "refresh_token row = Some (refresh_token_Token t)"
    if "row \<in> set (users db')" "username row = uname" for row
    using rows_after_commit [OF u d1, of "refresh_token_Token t"] c n that by simp
next
  fix t db' assume a: "new_token cfg db rt now now1 now2 = Inr (t, db')"
  from new_token_Inr [OF a] obtain u db1 where
    v: "verify_refresh_token cfg db rt now = Inr (Some u, db1)" and
    m: "refresh_token_Token t = create_token cfg [(''sub'', JStr (username u))] ''refresh''
               (JWT_REFRESH_EXPIRATION_SECONDS cfg) now2" and
    c: "db' = commit_refresh_token db1 u (refresh_token_Token t)" by blast
  from verify_refresh_token_Some [OF v] obtain uname where
    f: "filter (\<lambda>x. refresh_token x = Some rt)
          (filter (\<lambda>x. username x = uname) (users db)) = [u]" and
    l: "db1 = db\<lparr>executed := executed db @ [select_User uname (Some rt)]\<rparr>" by blast
  from f have "u \<in> set (filter (\<lambda>x. refresh_token x = Some rt)
                  (filter (\<lambda>x. username x = uname) (users db)))" by simp
  then have u: "u \<in> set (users db1)" and r: "refresh_token u = Some rt" using l by auto
  from assms l have d1: "distinct (map username (users db1))" by simp
  have "map username (users db') = map username (users db)"
    unfolding c usernames_commit_refresh_token using l by simp
  with v r m rows_after_commit [OF u d1, of "refresh_token_Token t"] c
  show "\<exists>u db1. verify_refresh_token cfg db rt now = Inr (Some u, db1) \<and>
               refresh_token u = Some rt \<and>
               refresh_token_Token t =
                 create_token cfg [(''sub'', JStr (username u))] ''refresh''
                   (JWT_REFRESH_EXPIRATION_SECONDS cfg) now2 \<and>
               map username (users db') = map username (users db) \<and>
               username u \<in> username ` set (users db') \<and>
               (\<forall>row \<in> set (users db').
                  username row = username u \<longrightarrow>
                  refresh_token row = Some (refresh_token_Token t))"
    by blast
next
  fix ta tb ua ub dba dbb na nb
  assume a: "verify_refresh_token cfg db ta na = Inr (Some ua, dba) \<and>
            verify_refresh_token cfg db tb nb = Inr (Some ub, dbb) \<and>
            username ua = username ub"
  from a verify_refresh_token_Some [of cfg db ta na ua dba] obtain una where
    fa: "filter (\<lambda>x. refresh_token x = Some ta)
           (filter (\<lambda>x. username x = una) (users db)) = [ua]"
    by blast
  from a verify_refresh_token_Some [of cfg db tb nb ub dbb] obtain unb where
    fb: "filter (\<lambda>x. refresh_token x = Some tb)
           (filter (\<lambda>x. username x = unb) (users db)) = [ub]"
    by blast
  from fa have "ua \<in> set (filter (\<lambda>x. refresh_token x = Some ta)
                  (filter (\<lambda>x. username x = una) (users db)))" by simp
  then have ua: "ua \<in> set (users db)" "refresh_token ua = Some ta" by auto
  from fb have "ub \<in> set (filter (\<lambda>x. refresh_token x = Some tb)
                  (filter (\<lambda>x. username x = unb) (users db)))" by simp
  then have ub: "ub \<in> set (users db)" "refresh_token ub = Some tb" by auto
  from ub a have "ub \<in> set (filter (\<lambda>y. username y = username ua) (users db))" by simp
  with filter_unique_key [OF assms ua(1)] have "ub = ua" by simp
  with ua ub show "ta = tb" by simp
qed

text \<open>
  Witness for C6: alice's login at second 1000 leaves her row with the token of second
  1000, and her refresh at second 1005 leaves it with the token of second 1005.
\<close>

theorem refresh_token_overwritten_witness:
  "distinct (map username (users db_init)) \<and>
   login_user cfg0 vp0 db_init ''alice'' ''alice'' 1000 1000 = Inr (pair_1000, db_1000) \<and>
   map refresh_token (filter (\<lambda>row. username row = ''alice'') (users db_1000)) =
     [Some (refresh_token_Token pair_1000)] \<and>
   distinct (map username (users db_1000)) \<and>
   new_token cfg0 db_1000 refresh_1000 1005 1005 1005 = Inr (pair_1005, db_1005) \<and>
   map refresh_token (filter (\<lambda>row. username row = ''alice'') (users db_1005)) =
     [Some (refresh_token_Token pair_1005)] \<and>
   refresh_token_Token pair_1005 = refresh_1005"
proof -
  from refresh_token_overwritten [OF distinct_db_init, of cfg0 vp0 "''alice''" "''alice''" 1000 1000]
    login_alice
  have x: "\<forall>row \<in> set (users db_1000).
             username row = ''alice'' \<longrightarrow> refresh_token row = Some (refresh_token_Token pair_1000)"
    by blast
  from refresh_token_overwritten [OF distinct_db_1000, where cfg = cfg0 and rt = refresh_1000
      and now = 1005 and ?now1.0 = 1005 and ?now2.0 = 1005] refresh_alice
  have y: "\<forall>row \<in> set (users db_1005).
             username row = username alice \<longrightarrow>
             refresh_token row = Some (refresh_token_Token pair_1005)"
    by (auto simp: verify_refresh_token_def token_defs store_defs example_defs)
  have "map refresh_token (filter (\<lambda>row. username row = ''alice'') (users db_1000)) =
          [Some (refresh_token_Token pair_1000)]"
    using x by (simp add: example_defs)
  moreover have
    "map refresh_token (filter (\<lambda>row. username row = ''alice'') (users db_1005)) =
          [Some (refresh_token_Token pair_1005)]"
    using y by (simp add: example_defs)
  moreover have "refresh_token_Token pair_1005 = refresh_1005"
    by (simp add: example_defs)
  ultimately show ?thesis
    using distinct_db_init distinct_db_1000 login_alice refresh_alice by simp
qed

subsection \<open>Encoding and decoding\<close>




subsection \<open>Email-confirmation tokens\<close>




subsection \<open>The administrator check\<close>

text \<open>
  Claim C9. \<^verbatim>\<open>get_current_admin_user\<close> returns the user it was given, unchanged,
  when the user's role is \<^verbatim>\<open>ADMIN\<close>, and raises the 403 with
  \<^verbatim>\<open>INSUFFICIENT_PERMISSIONS\<close> for every other role, \<^verbatim>\<open>USER\<close> among them.
\<close>

theorem get_current_admin_user_role:
  "(role u = Some ADMIN \<longrightarrow> get_current_admin_user u = Inr u) \<and>
   (role u \<noteq> Some ADMIN \<longrightarrow>
      get_current_admin_user u = Inl (HTTPException 403 INSUFFICIENT_PERMISSIONS))"
  by (simp add: get_current_admin_user_def)

text \<open>Witness for C9: root is an administrator and passes, alice is a user and does not.\<close>

theorem get_current_admin_user_role_witness:
  "role root = Some ADMIN \<and> get_current_admin_user root = Inr root \<and>
   role alice = Some USER \<and>
   get_current_admin_user alice = Inl (HTTPException 403 INSUFFICIENT_PERMISSIONS)"
  using get_current_admin_user_role [of root] get_current_admin_user_role [of alice]
  by (simp add: root_def alice_def)

subsection \<open>Email-confirmation tokens are no session tokens\<close>

text \<open>
  Claim C10, as the code has it. A token from \<^verbatim>\<open>create_email_token\<close> is refused
  with the 401 \<^verbatim>\<open>UNVERIFIED_CREDENTIALS\<close> by \<^verbatim>\<open>get_current_user\<close> unless the
  claims it was given name the kind \<^verbatim>\<open>access\<close>, and by \<^verbatim>\<open>verify_refresh_token\<close>
  unless they name the kind \<^verbatim>\<open>refresh\<close>, at every time, before and after its expiry,
  and in every state of cache and store. The issuer writes no kind of its own, so
  claims without a \<^verbatim>\<open>token_type\<close> entry, the subject email alone among them, are
  always refused.
\<close>

theorem email_token_not_session_token:
  "(map_of data ''token_type'' \<noteq> Some (JStr ''access'') \<longrightarrow>
      get_current_user cfg r db (create_email_token cfg data now1 now2) now rnow =
        Inl credentials_exception) \<and>
   (map_of data ''token_type'' \<noteq> Some (JStr ''refresh'') \<longrightarrow>
      verify_refresh_token cfg db (create_email_token cfg data now1 now2) now =
        Inl credentials_exception)"
  by (auto simp: get_current_user_def verify_refresh_token_def jwt_decode_create_email_token
        update_conv' split: option.splits jval.splits)

text \<open>
  Witness for C10: the token issued for alice's address at second 1000 is refused as a
  bearer token and as a refresh token one second later.
\<close>

theorem email_token_not_session_token_witness:
  "map_of [(''sub'', JStr ''alice@example.com'')] ''token_type'' = None \<and>
   create_email_token cfg0 [(''sub'', JStr ''alice@example.com'')] 1000 1000 = email_1000 \<and>
   get_current_user cfg0 Map.empty db_init email_1000 1001 1001 = Inl credentials_exception \<and>
   verify_refresh_token cfg0 db_init email_1000 1001 = Inl credentials_exception"
proof -
  have m: "create_email_token cfg0 [(''sub'', JStr ''alice@example.com'')] 1000 1000 =
             email_1000"
    by (simp add: token_defs example_defs)
  from email_token_not_session_token
    [of "[(''sub'', JStr ''alice@example.com'')]" cfg0 Map.empty db_init 1000 1000 1001 1001] m
  show ?thesis by simp
qed

text \<open>
  Counterexample to C10 as stated, where it speaks of every payload: claims that name
  the kind \<^verbatim>\<open>access\<close> themselves give an email-confirmation token that resolves
  alice as a bearer token.
\<close>

theorem email_token_not_session_token_counterexample:
  "get_current_user cfg0 Map.empty db_init
     (create_email_token cfg0 [(''sub'', JStr ''alice''), (''token_type'', JStr ''access'')]
        1000 1000) 1001 1001 =
     Inr (alice,
          redis_expire (redis_set Map.empty ''alice'' (model_dump_json alice)) 1001 ''alice'' 600,
          db_init\<lparr>executed := [select_User ''alice'' None]\<rparr>)"
  by (simp add: get_current_user_def token_defs store_defs redis_defs example_defs)

end
